theory Spec2Isabelle
  imports Complex_Main
begin

section \<open>Data model\<close>

text \<open>
  The repository consists of two notebooks. Tutorial 06 computes the mean pupil diameter
  for each fixation on a surface (the aggregation); tutorial 10 writes blink and fixation
  ids into the gaze table (the tagging). The tables are pandas data frames; a frame is
  modelled as the list of its rows, a row as a record of the columns the code reads or
  writes.

  A value of dtype \<open>float64\<close> is modelled as the \<^typ>\<open>real\<close> number it denotes, so
  that comparisons are exact, as they are on floats. The sum and the quotient that
  compute the end of a window are the float64 operations: the exact result rounded to
  the nearest float64 value (section below). NaN entries and infinities are outside the
  model (the frames the notebooks print have no null entries). Columns of dtype
  \<open>int64\<close> hold identifiers that are only compared and copied, so they are
  \<^typ>\<open>int\<close>. A label column of dtype \<open>object\<close> holding \<open>None\<close> or an identifier is
  an \<^typ>\<open>int option\<close>.
\<close>

datatype py_error = IndexError | AttributeError

subsection \<open>Tutorial 06\<close>

record pupil_position =
  pupil_timestamp :: real
  diameter_3d :: real
  confidence :: real

record surface_fixation =
  fixation_id :: int
  start_timestamp :: real
  duration :: real
  on_surf :: bool

subsection \<open>Tutorial 10\<close>

text \<open>
  The gaze export has more columns than the ones the notebook displays; they are the
  extension part of the record, which no cell touches.
\<close>

record gaze_sample =
  gaze_timestamp :: real
  confidence :: real
  norm_pos_x :: real
  norm_pos_y :: real
  blink_id :: "int option"
  fixation_id :: "int option"

record blink =
  id' :: int
  start_timestamp :: real
  end_timestamp :: real

text \<open>
  The exported fixations have no \<open>end_timestamp\<close> column; the notebook adds it. The
  column is therefore optional in a row: \<open>None\<close> is the row of a frame that does not
  have the column (reading the attribute raises \<open>AttributeError\<close>).
\<close>

record fixation =
  id' :: int
  start_timestamp :: real
  duration :: real
  end_timestamp :: "real option"

text \<open>
  The global frames \<open>gaze\<close>, \<open>blinks\<close> and \<open>fixations\<close> of tutorial 10, which its
  cells read and update in place.
\<close>

record 'a notebook =
  gaze_frame :: "'a gaze_sample_scheme list"
  blinks_frame :: "blink list"
  fixations_frame :: "fixation list"

section \<open>float64 arithmetic\<close>

text \<open>
  IEEE 754 binary64 with the default rounding, which is what numpy and pandas compute
  with: the result of an operation is the exact result rounded to the nearest value with
  a significand of 53 bits, a tie going to the even significand. \<open>float64_scale\<close>
  brings the magnitude into the range from \<open>2 ^ 52\<close> to \<open>2 ^ 53\<close> (the exponent is at
  least \<open>- 1074\<close>, below that the values are subnormal); the exponent of a finite
  float64 value is within 2200 steps of \<open>0\<close>. A result of magnitude \<open>2 ^ 1024\<close> or more
  would be an infinity and is outside the model.
\<close>

definition round_half_even :: "real \<Rightarrow> int" where
  "round_half_even x =
     (let f = \<lfloor>x\<rfloor> in
      if x - of_int f < 1 / 2 then f
      else if 1 / 2 < x - of_int f then f + 1
      else if even f then f else f + 1)"

fun float64_scale :: "nat \<Rightarrow> real \<Rightarrow> int \<Rightarrow> real \<times> int" where
  "float64_scale 0 m e = (m, e)"
| "float64_scale (Suc fuel) m e =
     (if 2 ^ 53 \<le> m then float64_scale fuel (m / 2) (e + 1)
      else if m < 2 ^ 52 \<and> - 1074 < e then float64_scale fuel (m * 2) (e - 1)
      else (m, e))"

definition float64_round :: "real \<Rightarrow> real" where
  "float64_round x =
     (if x = 0 then 0
      else case float64_scale 2200 \<bar>x\<bar> 0 of
             (m, e) \<Rightarrow> sgn x * of_int (round_half_even m) * 2 powi e)"

definition float64_add :: "real \<Rightarrow> real \<Rightarrow> real" where
  "float64_add a b = float64_round (a + b)"

definition float64_div :: "real \<Rightarrow> real \<Rightarrow> real" where
  "float64_div a b = float64_round (a / b)"

section \<open>Tutorial 06: mean pupil diameter by fixation\<close>

definition MIN_CONFIDENCE :: real where
  "MIN_CONFIDENCE = 0.8"

text \<open>
  \<open>fixations_on_surface.groupby("fixation_id")\<close>: pandas sorts the group keys
  (\<open>sort=True\<close> is the default) and keeps, inside each group, the rows in their
  original order.
\<close>

definition groupby_fixation_id ::
  "surface_fixation list \<Rightarrow> (int \<times> surface_fixation list) list" where
  "groupby_fixation_id fixations_on_surface =
     map (\<lambda>key. (key, filter (\<lambda>row. surface_fixation.fixation_id row = key) fixations_on_surface))
       (sort (remdups (map surface_fixation.fixation_id fixations_on_surface)))"

text \<open>\<open>fixations.iloc[0]\<close> raises \<open>IndexError\<close> on a frame without rows.\<close>

definition iloc0 :: "'a list \<Rightarrow> py_error + 'a" where
  "iloc0 rows = (case rows of [] \<Rightarrow> Inl IndexError | row # _ \<Rightarrow> Inr row)"

text \<open>
  \<open>Series.mean()\<close>: the arithmetic mean, and NaN (here \<open>None\<close>) for a series without
  entries. The value is the exact mean; pandas rounds it to float64, in an order of
  summation that the notebook does not fix.
\<close>

definition mean :: "real list \<Rightarrow> real option" where
  "mean series = (if series = [] then None else Some (sum_list series / real (length series)))"

definition mask_after_start :: "real \<Rightarrow> pupil_position \<Rightarrow> bool" where
  "mask_after_start fixation_start p = (fixation_start \<le> pupil_timestamp p)"

definition mask_before_end :: "real \<Rightarrow> pupil_position \<Rightarrow> bool" where
  "mask_before_end fixation_end p = (pupil_timestamp p \<le> fixation_end)"

definition mask_high_confidence :: "real \<Rightarrow> pupil_position \<Rightarrow> bool" where
  "mask_high_confidence min_confidence p = (pupil_position.confidence p \<ge> min_confidence)"

definition pupil_positions_during_fixation ::
  "real \<Rightarrow> pupil_position list \<Rightarrow> real \<Rightarrow> real \<Rightarrow> pupil_position list" where
  "pupil_positions_during_fixation min_confidence pupil_positions fixation_start fixation_end =
     filter (\<lambda>p. mask_after_start fixation_start p \<and> mask_before_end fixation_end p
                  \<and> mask_high_confidence min_confidence p) pupil_positions"

text \<open>
  The loop over the groups. \<open>results\<close> is the list the loop appends to; the threshold,
  a global constant of the cell, is a parameter.
\<close>

fun aggregate_loop ::
  "real \<Rightarrow> pupil_position list \<Rightarrow> (int \<times> surface_fixation list) list
     \<Rightarrow> (int \<times> real option) list \<Rightarrow> py_error + (int \<times> real option) list" where
  "aggregate_loop min_confidence pupil_positions [] results = Inr results"
| "aggregate_loop min_confidence pupil_positions ((key, fixations) # groups) results =
     (case iloc0 fixations of
        Inl e \<Rightarrow> Inl e
      | Inr first_fixation \<Rightarrow>
          if \<not> on_surf first_fixation
          then aggregate_loop min_confidence pupil_positions groups results
          else
            let fixation_id = surface_fixation.fixation_id first_fixation;
                fixation_start = surface_fixation.start_timestamp first_fixation;
                fixation_end =
                  float64_add fixation_start
                    (float64_div (surface_fixation.duration first_fixation) 1000);
                diameter_3d_during_fixation =
                  map diameter_3d
                    (pupil_positions_during_fixation min_confidence pupil_positions
                       fixation_start fixation_end)
            in aggregate_loop min_confidence pupil_positions groups
                 (results @ [(fixation_id, mean diameter_3d_during_fixation)]))"

definition aggregateByEvent ::
  "real \<Rightarrow> pupil_position list \<Rightarrow> surface_fixation list
     \<Rightarrow> py_error + (int \<times> real option) list" where
  "aggregateByEvent min_confidence pupil_positions fixations_on_surface =
     aggregate_loop min_confidence pupil_positions (groupby_fixation_id fixations_on_surface) []"

text \<open>The cell as the notebook runs it.\<close>

definition mean_diameter_3d_by_fixation ::
  "pupil_position list \<Rightarrow> surface_fixation list \<Rightarrow> py_error + (int \<times> real option) list" where
  "mean_diameter_3d_by_fixation = aggregateByEvent MIN_CONFIDENCE"

section \<open>Tutorial 10: blink and fixation ids in the gaze frame\<close>

text \<open>\<open>Series.between(left, right)\<close> is \<open>left <= series <= right\<close>.\<close>

definition between :: "real \<Rightarrow> real \<Rightarrow> real \<Rightarrow> bool" where
  "between t left right = (left \<le> t \<and> t \<le> right)"

text \<open>
  \<open>fixations["end_timestamp"] = fixations.start_timestamp + fixations.duration / 1_000\<close>
  creates the column in the global frame (or overwrites it).
\<close>

definition add_end_timestamp :: "'a notebook \<Rightarrow> 'a notebook" where
  "add_end_timestamp nb =
     nb\<lparr>fixations_frame :=
          map (\<lambda>f. f\<lparr>fixation.end_timestamp :=
                        Some (float64_add (fixation.start_timestamp f) (float64_div (fixation.duration f) 1000))\<rparr>)
            (fixations_frame nb)\<rparr>"

text \<open>\<open>gaze["blink_id"] = None\<close> and \<open>gaze["fixation_id"] = None\<close>.\<close>

definition init_labels :: "'a notebook \<Rightarrow> 'a notebook" where
  "init_labels nb =
     nb\<lparr>gaze_frame :=
          map (\<lambda>g. g\<lparr>blink_id := None, gaze_sample.fixation_id := None\<rparr>) (gaze_frame nb)\<rparr>"

text \<open>
  The loop over \<open>blinks.itertuples()\<close>; \<open>gaze.loc[found_sample_mask, "blink_id"] = blink.id\<close>
  writes the id into the rows the mask selects. The count the loop prints is output only.
\<close>

fun tag_blinks :: "blink list \<Rightarrow> 'a gaze_sample_scheme list \<Rightarrow> 'a gaze_sample_scheme list" where
  "tag_blinks [] gaze = gaze"
| "tag_blinks (blink # rest) gaze =
     tag_blinks rest
       (map (\<lambda>g. if between (gaze_timestamp g) (blink.start_timestamp blink) (blink.end_timestamp blink)
                  then g\<lparr>blink_id := Some (blink.id' blink)\<rparr> else g) gaze)"

text \<open>
  The loop over \<open>fixations.itertuples()\<close>. A row without \<open>end_timestamp\<close> stops the loop
  with \<open>AttributeError\<close>; the gaze frame keeps what the earlier rounds wrote.
\<close>

fun tag_fixations ::
  "fixation list \<Rightarrow> 'a gaze_sample_scheme list \<Rightarrow> py_error option \<times> 'a gaze_sample_scheme list" where
  "tag_fixations [] gaze = (None, gaze)"
| "tag_fixations (fixation # rest) gaze =
     (case fixation.end_timestamp fixation of
        None \<Rightarrow> (Some AttributeError, gaze)
      | Some fixation_end \<Rightarrow>
          tag_fixations rest
            (map (\<lambda>g. if between (gaze_timestamp g) (fixation.start_timestamp fixation) fixation_end
                       then g\<lparr>gaze_sample.fixation_id := Some (fixation.id' fixation)\<rparr> else g) gaze))"

definition tag_blinks_cell :: "'a notebook \<Rightarrow> 'a notebook" where
  "tag_blinks_cell nb = nb\<lparr>gaze_frame := tag_blinks (blinks_frame nb) (gaze_frame nb)\<rparr>"

definition tag_fixations_cell :: "'a notebook \<Rightarrow> py_error option \<times> 'a notebook" where
  "tag_fixations_cell nb =
     (case tag_fixations (fixations_frame nb) (gaze_frame nb) of
        (err, gaze') \<Rightarrow> (err, nb\<lparr>gaze_frame := gaze'\<rparr>))"

text \<open>
  Tagging: the label columns are initialised, then the blink loop and the fixation loop
  run. The result is the error raised, if any, and the frames as they are afterwards.
\<close>

definition tagSamples :: "'a notebook \<Rightarrow> py_error option \<times> 'a notebook" where
  "tagSamples nb = tag_fixations_cell (tag_blinks_cell (init_labels nb))"

section \<open>Auxiliary notions for the proofs\<close>

text \<open>
  The row the aggregation loop appends for a fixation on the surface, and the first row
  of the group of a key.
\<close>

definition result_row :: "real \<Rightarrow> pupil_position list \<Rightarrow> surface_fixation \<Rightarrow> int \<times> real option" where
  "result_row c pp f =
     (surface_fixation.fixation_id f,
      mean (map diameter_3d
        (pupil_positions_during_fixation c pp (surface_fixation.start_timestamp f)
           (float64_add (surface_fixation.start_timestamp f) (float64_div (surface_fixation.duration f) 1000)))))"

definition first_row :: "surface_fixation list \<Rightarrow> int \<Rightarrow> surface_fixation" where
  "first_row df k = hd (filter (\<lambda>row. surface_fixation.fixation_id row = k) df)"

text \<open>
  What the tagging loops do to one gaze sample: the label a sample at time \<open>t\<close> carries
  after the loop, given the label it had before, and the error the fixation loop ends
  with.
\<close>

fun blink_label :: "blink list \<Rightarrow> real \<Rightarrow> int option \<Rightarrow> int option" where
  "blink_label [] t label = label"
| "blink_label (blink # rest) t label =
     blink_label rest t
       (if between t (blink.start_timestamp blink) (blink.end_timestamp blink)
        then Some (blink.id' blink) else label)"

fun fixation_label :: "fixation list \<Rightarrow> real \<Rightarrow> int option \<Rightarrow> int option" where
  "fixation_label [] t label = label"
| "fixation_label (fixation # rest) t label =
     (case fixation.end_timestamp fixation of
        None \<Rightarrow> label
      | Some fixation_end \<Rightarrow>
          fixation_label rest t
            (if between t (fixation.start_timestamp fixation) fixation_end
             then Some (fixation.id' fixation) else label))"

fun fixation_error :: "fixation list \<Rightarrow> py_error option" where
  "fixation_error [] = None"
| "fixation_error (fixation # rest) =
     (case fixation.end_timestamp fixation of
        None \<Rightarrow> Some AttributeError
      | Some fixation_end \<Rightarrow> fixation_error rest)"

text \<open>
  Example frames: the pupil samples and the fixation of the aggregation scenario (with
  an additional duplicate row and a fixation without samples), and a gaze frame with a
  blink and a fixation.
\<close>

abbreviation example_pupil_positions :: "pupil_position list" where
  "example_pupil_positions \<equiv>
     [\<lparr>pupil_timestamp = 0, diameter_3d = 4, pupil_position.confidence = 0.9\<rparr>,
      \<lparr>pupil_timestamp = 1, diameter_3d = 6, pupil_position.confidence = 0.5\<rparr>]"

abbreviation example_first_fixation :: surface_fixation where
  "example_first_fixation \<equiv>
     \<lparr>surface_fixation.fixation_id = 1, start_timestamp = 0, duration = 2000, on_surf = True\<rparr>"

abbreviation example_fixations_on_surface :: "surface_fixation list" where
  "example_fixations_on_surface \<equiv>
     [example_first_fixation,
      \<lparr>surface_fixation.fixation_id = 1, start_timestamp = 0.5, duration = 1000, on_surf = True\<rparr>]"

abbreviation example_empty_fixation :: surface_fixation where
  "example_empty_fixation \<equiv>
     \<lparr>surface_fixation.fixation_id = 3, start_timestamp = 10, duration = 500, on_surf = True\<rparr>"

abbreviation example_window_pupil_positions :: "pupil_position list" where
  "example_window_pupil_positions \<equiv>
     [\<lparr>pupil_timestamp = 10, diameter_3d = 4, pupil_position.confidence = 0.9\<rparr>,
      \<lparr>pupil_timestamp = 10.5, diameter_3d = 6, pupil_position.confidence = 0.9\<rparr>,
      \<lparr>pupil_timestamp = 10.6, diameter_3d = 100, pupil_position.confidence = 0.9\<rparr>]"

abbreviation example_notebook :: "unit notebook" where
  "example_notebook \<equiv>
     \<lparr>gaze_frame =
        [\<lparr>gaze_timestamp = 0, gaze_sample.confidence = 1, norm_pos_x = 0.5, norm_pos_y = 0.5,
          blink_id = None, gaze_sample.fixation_id = None\<rparr>,
         \<lparr>gaze_timestamp = 1, gaze_sample.confidence = 0.1, norm_pos_x = 0.5, norm_pos_y = 0.5,
          blink_id = None, gaze_sample.fixation_id = None\<rparr>,
         \<lparr>gaze_timestamp = 5, gaze_sample.confidence = 1, norm_pos_x = 0.5, norm_pos_y = 0.5,
          blink_id = None, gaze_sample.fixation_id = None\<rparr>],
      blinks_frame = [\<lparr>blink.id' = 5, start_timestamp = 0.5, end_timestamp = 2\<rparr>],
      fixations_frame =
        [\<lparr>fixation.id' = 65, start_timestamp = 0, duration = 2000, end_timestamp = Some 2\<rparr>]\<rparr>"

abbreviation example_duration_notebook :: "unit notebook" where
  "example_duration_notebook \<equiv>
     \<lparr>gaze_frame =
        [\<lparr>gaze_timestamp = 10.5, gaze_sample.confidence = 1, norm_pos_x = 0.5, norm_pos_y = 0.5,
          blink_id = None, gaze_sample.fixation_id = None\<rparr>,
         \<lparr>gaze_timestamp = 10.6, gaze_sample.confidence = 1, norm_pos_x = 0.5, norm_pos_y = 0.5,
          blink_id = None, gaze_sample.fixation_id = None\<rparr>],
      blinks_frame = [],
      fixations_frame =
        [\<lparr>fixation.id' = 3, start_timestamp = 10, duration = 500, end_timestamp = None\<rparr>]\<rparr>"

section \<open>Evaluating float64 arithmetic\<close>

lemma float64_scale_numeral:
  "float64_scale (numeral k) m e =
     (if 2 ^ 53 \<le> m then float64_scale (pred_numeral k) (m / 2) (e + 1)
      else if m < 2 ^ 52 \<and> - 1074 < e then float64_scale (pred_numeral k) (m * 2) (e - 1)
      else (m, e))"
  by (simp add: numeral_eq_Suc)

lemmas float64_eval =
  float64_add_def float64_div_def float64_round_def float64_scale_numeral
  round_half_even_def power_int_minus

text \<open>
  The end of the window of an event with start \<open>10\<close> and duration \<open>500\<close> is exact.
\<close>

lemma float64_end_10_500: "float64_add 10 (float64_div 500 1000) = 10.5"
  by (simp add: float64_eval)

text \<open>
  In general the end is not the exact sum. For the float64 value nearest to \<open>0.1\<close> and
  the duration \<open>200\<close> it is the float64 value printed as \<open>0.30000000000000004\<close>, above the
  exact sum; for the float64 value nearest to \<open>0.7\<close> and the duration \<open>100\<close> it is the
  value printed as \<open>0.7999999999999999\<close>, below the exact sum.
\<close>

lemma float64_end_above_exact:
  "float64_add (3602879701896397 / 2 ^ 55) (float64_div 200 1000) = 1351079888211149 / 2 ^ 52
   \<and> 3602879701896397 / 2 ^ 55 + 200 / 1000 < (1351079888211149 / 2 ^ 52 :: real)"
  by (simp add: float64_eval)

lemma float64_end_below_exact:
  "float64_add (3152519739159347 / 2 ^ 52) (float64_div 100 1000) = 7205759403792793 / 2 ^ 53
   \<and> (7205759403792793 / 2 ^ 53 :: real) < 3152519739159347 / 2 ^ 52 + 100 / 1000"
  by (simp add: float64_eval)

section \<open>Properties of the aggregation\<close>

lemma aggregate_loop_rows:
  "\<forall>(k, g) \<in> set gs. g \<noteq> [] \<Longrightarrow>
   aggregate_loop c pp gs acc =
     Inr (acc @ map (\<lambda>(k, g). result_row c pp (hd g)) (filter (\<lambda>(k, g). on_surf (hd g)) gs))"
proof (induction gs arbitrary: acc)
  case Nil
  then show ?case by simp
next
  case (Cons kg gs)
  obtain k g where kg: "kg = (k, g)" by (cases kg)
  with Cons.prems obtain f fs where g: "g = f # fs" by (cases g) auto
  from Cons.prems have rest: "\<forall>(k, g) \<in> set gs. g \<noteq> []" by simp
  show ?case
    by (simp add: kg g iloc0_def Cons.IH [OF rest] result_row_def Let_def)
qed

lemma aggregateByEvent_rows:
  "aggregateByEvent c pp df =
     Inr (map (\<lambda>k. result_row c pp (first_row df k))
           (filter (\<lambda>k. on_surf (first_row df k))
              (sort (remdups (map surface_fixation.fixation_id df)))))"
proof -
  let ?keys = "sort (remdups (map surface_fixation.fixation_id df))"
  have nonempty: "\<forall>(k, g) \<in> set (groupby_fixation_id df). g \<noteq> []"
    by (auto simp: groupby_fixation_id_def filter_empty_conv)
  show ?thesis
    unfolding aggregateByEvent_def aggregate_loop_rows [OF nonempty]
    by (simp add: groupby_fixation_id_def filter_map comp_def first_row_def)
qed

lemma first_row_find:
  "find (\<lambda>row. surface_fixation.fixation_id row = k) df = Some f \<Longrightarrow> first_row df k = f"
  by (induction df) (auto simp: first_row_def split: if_splits)

lemma first_row_id:
  "k \<in> set (map surface_fixation.fixation_id df) \<Longrightarrow> surface_fixation.fixation_id (first_row df k) = k"
  by (induction df) (auto simp: first_row_def)

lemma first_row_in:
  "find (\<lambda>row. surface_fixation.fixation_id row = k) df = Some f \<Longrightarrow>
   k \<in> set (map surface_fixation.fixation_id df)"
  by (induction df) (auto split: if_splits)

lemma find_first_row:
  "k \<in> set (map surface_fixation.fixation_id df) \<Longrightarrow>
   find (\<lambda>row. surface_fixation.fixation_id row = k) df = Some (first_row df k)"
  by (induction df) (auto simp: first_row_def)

lemma filter_eq_distinct:
  "distinct xs \<Longrightarrow> filter (\<lambda>y. y = x \<and> P y) xs = (if x \<in> set xs \<and> P x then [x] else [])"
  by (induction xs) auto

lemma rows_for_key:
  assumes "find (\<lambda>row. surface_fixation.fixation_id row = k) df = Some f"
  shows "\<exists>rs. aggregateByEvent c pp df = Inr rs
           \<and> filter (\<lambda>r. fst r = k) rs = (if on_surf f then [result_row c pp f] else [])"
proof -
  let ?keys = "sort (remdups (map surface_fixation.fixation_id df))"
  let ?valid = "\<lambda>k. on_surf (first_row df k)"
  let ?rs = "map (\<lambda>k. result_row c pp (first_row df k)) (filter ?valid ?keys)"
  have f: "first_row df k = f" using assms by (rule first_row_find)
  have k: "k \<in> set ?keys" using first_row_in [OF assms] by simp
  have "filter (\<lambda>r. fst r = k) ?rs =
          map (\<lambda>k. result_row c pp (first_row df k))
            (filter (\<lambda>k'. fst (result_row c pp (first_row df k')) = k) (filter ?valid ?keys))"
    by (simp add: filter_map comp_def)
  also have "filter (\<lambda>k'. fst (result_row c pp (first_row df k')) = k) (filter ?valid ?keys)
               = filter (\<lambda>k'. k' = k \<and> ?valid k') ?keys"
    unfolding filter_filter
    by (rule filter_cong) (auto simp: result_row_def first_row_id)
  also have "\<dots> = (if ?valid k then [k] else [])"
    using k by (simp add: filter_eq_distinct)
  finally have "filter (\<lambda>r. fst r = k) ?rs = (if on_surf f then [result_row c pp f] else [])"
    by (simp add: f)
  then show ?thesis
    unfolding aggregateByEvent_rows by blast
qed

lemma ids_of_rows:
  "map fst (map (\<lambda>k. result_row c pp (first_row df k))
      (filter (\<lambda>k. on_surf (first_row df k)) (sort (remdups (map surface_fixation.fixation_id df)))))
   = filter (\<lambda>k. on_surf (first_row df k)) (sort (remdups (map surface_fixation.fixation_id df)))"
  unfolding map_map by (rule map_idI) (auto simp: result_row_def first_row_id)

lemma single_event:
  "aggregateByEvent c pp [f] = Inr (if on_surf f then [result_row c pp f] else [])"
  by (simp add: aggregateByEvent_def groupby_fixation_id_def iloc0_def result_row_def Let_def)

lemma result_row_unfold:
  "result_row c pp f =
     (surface_fixation.fixation_id f,
      mean (map diameter_3d
        (filter (\<lambda>p. surface_fixation.start_timestamp f \<le> pupil_timestamp p
                   \<and> pupil_timestamp p \<le> float64_add (surface_fixation.start_timestamp f) (float64_div (surface_fixation.duration f) 1000)
                   \<and> c \<le> pupil_position.confidence p) pp)))"
  by (simp add: result_row_def pupil_positions_during_fixation_def mask_after_start_def
      mask_before_end_def mask_high_confidence_def)

lemma row_of_valid_event:
  assumes "find (\<lambda>row. surface_fixation.fixation_id row = surface_fixation.fixation_id e) df = Some e"
    and "on_surf e"
  shows "\<exists>rs. aggregateByEvent min_confidence pp df = Inr rs
         \<and> filter (\<lambda>r. fst r = surface_fixation.fixation_id e) rs =
             [(surface_fixation.fixation_id e,
               mean (map diameter_3d
                 (filter (\<lambda>p. surface_fixation.start_timestamp e \<le> pupil_timestamp p
                            \<and> pupil_timestamp p
                                \<le> float64_add (surface_fixation.start_timestamp e) (float64_div (surface_fixation.duration e) 1000)
                            \<and> pupil_position.confidence p \<ge> min_confidence) pp)))]"
  using rows_for_key [OF assms(1), of min_confidence pp] assms(2)
  by (simp add: result_row_unfold)

text \<open>
  C1 (as amended). For every pupil frame and fixation frame the aggregation returns
  exactly one pair per distinct identifier whose first row is on the surface, and the
  pairs are in ascending order of the identifiers: \<open>groupby\<close> sorts its keys.
\<close>

theorem aggregateByEvent_ids_ascending:
  "\<exists>results. aggregateByEvent c pp df = Inr results
     \<and> sorted (map fst results) \<and> distinct (map fst results)
     \<and> set (map fst results) =
         {k. \<exists>f. find (\<lambda>row. surface_fixation.fixation_id row = k) df = Some f \<and> on_surf f}"
proof -
  let ?keys = "sort (remdups (map surface_fixation.fixation_id df))"
  let ?ids = "filter (\<lambda>k. on_surf (first_row df k)) ?keys"
  let ?rs = "map (\<lambda>k. result_row c pp (first_row df k)) ?ids"
  have ids: "map fst ?rs = ?ids" by (rule ids_of_rows)
  have "sorted ?ids" using sorted_filter [of id ?keys] by simp
  moreover have "distinct ?ids" by simp
  moreover have "set ?ids =
      {k. \<exists>f. find (\<lambda>row. surface_fixation.fixation_id row = k) df = Some f \<and> on_surf f}"
  proof (intro set_eqI iffI)
    fix k assume "k \<in> set ?ids"
    then have "k \<in> set (map surface_fixation.fixation_id df)" and "on_surf (first_row df k)"
      by simp_all
    then show "k \<in> {k. \<exists>f. find (\<lambda>row. surface_fixation.fixation_id row = k) df = Some f \<and> on_surf f}"
      using find_first_row by blast
  next
    fix k
    assume "k \<in> {k. \<exists>f. find (\<lambda>row. surface_fixation.fixation_id row = k) df = Some f \<and> on_surf f}"
    then obtain f where f: "find (\<lambda>row. surface_fixation.fixation_id row = k) df = Some f"
      and "on_surf f" by blast
    then have "on_surf (first_row df k)" by (simp add: first_row_find)
    moreover have "k \<in> set ?keys" using first_row_in [OF f] by simp
    ultimately show "k \<in> set ?ids" by simp
  qed
  ultimately have "sorted (map fst ?rs) \<and> distinct (map fst ?rs) \<and> set (map fst ?rs) =
      {k. \<exists>f. find (\<lambda>row. surface_fixation.fixation_id row = k) df = Some f \<and> on_surf f}"
    unfolding ids by blast
  then show ?thesis
    using aggregateByEvent_rows [of c pp df] by blast
qed

text \<open>
  C1 as stated fails: the fixations appear in the order 2, 1 and the result lists
  identifier 1 before identifier 2.
\<close>

theorem aggregateByEvent_order_counterexample:
  "aggregateByEvent MIN_CONFIDENCE
     [\<lparr>pupil_timestamp = 0.5, diameter_3d = 4, pupil_position.confidence = 0.9\<rparr>,
      \<lparr>pupil_timestamp = 5.5, diameter_3d = 6, pupil_position.confidence = 0.9\<rparr>]
     [\<lparr>surface_fixation.fixation_id = 2, start_timestamp = 0, duration = 1000, on_surf = True\<rparr>,
      \<lparr>surface_fixation.fixation_id = 1, start_timestamp = 5, duration = 1000, on_surf = True\<rparr>]
   = Inr [(1, Some 6), (2, Some 4)]"
  by (simp add: aggregateByEvent_def groupby_fixation_id_def iloc0_def mean_def MIN_CONFIDENCE_def
      pupil_positions_during_fixation_def mask_after_start_def mask_before_end_def
      mask_high_confidence_def float64_eval)

text \<open>
  C2. When \<open>first\<close> is the first row of the fixation frame with identifier \<open>k\<close>, the
  rows the aggregation returns for \<open>k\<close> are the rows it returns for the frame that
  consists of \<open>first\<close> alone: the same aggregate if \<open>first\<close> is on the surface, no row
  if it is not. Later rows with the same identifier contribute nothing.
\<close>

theorem duplicate_rows_use_first_occurrence:
  assumes "find (\<lambda>row. surface_fixation.fixation_id row = k) df = Some first"
  shows "\<exists>rs rs1. aggregateByEvent c pp df = Inr rs \<and> aggregateByEvent c pp [first] = Inr rs1
           \<and> filter (\<lambda>r. fst r = k) rs = rs1"
  using rows_for_key [OF assms, of c pp] by (auto simp: single_event)

theorem duplicate_rows_use_first_occurrence_witness:
  "find (\<lambda>row. surface_fixation.fixation_id row = 1) example_fixations_on_surface
     = Some example_first_fixation
   \<and> (\<exists>rs rs1. aggregateByEvent MIN_CONFIDENCE example_pupil_positions example_fixations_on_surface = Inr rs
         \<and> aggregateByEvent MIN_CONFIDENCE example_pupil_positions [example_first_fixation] = Inr rs1
         \<and> filter (\<lambda>r. fst r = 1) rs = rs1)"
proof -
  have h: "find (\<lambda>row. surface_fixation.fixation_id row = 1) example_fixations_on_surface
     = Some example_first_fixation" by simp
  from duplicate_rows_use_first_occurrence [OF h] h show ?thesis by blast
qed

text \<open>
  C5. A fixation on the surface (the first row of its identifier) whose window, with
  the end as the loop computes it, holds no pupil sample of sufficient confidence still
  gets its row; the value of the row is the
  undefined mean (\<open>None\<close>, the model of NaN), not \<open>0\<close>, and no error is raised.
\<close>

theorem no_qualifying_samples_gives_undefined:
  assumes "find (\<lambda>row. surface_fixation.fixation_id row = surface_fixation.fixation_id f) df = Some f"
    and "on_surf f"
    and "\<forall>p \<in> set pp. \<not> (surface_fixation.start_timestamp f \<le> pupil_timestamp p
            \<and> pupil_timestamp p \<le> float64_add (surface_fixation.start_timestamp f) (float64_div (surface_fixation.duration f) 1000)
            \<and> c \<le> pupil_position.confidence p)"
  shows "\<exists>rs. aggregateByEvent c pp df = Inr rs
           \<and> filter (\<lambda>r. fst r = surface_fixation.fixation_id f) rs = [(surface_fixation.fixation_id f, None)]
           \<and> (surface_fixation.fixation_id f, Some 0) \<notin> set rs"
proof -
  from rows_for_key [OF assms(1), of c pp] assms(2)
  obtain rs where rs: "aggregateByEvent c pp df = Inr rs"
    and row: "filter (\<lambda>r. fst r = surface_fixation.fixation_id f) rs = [result_row c pp f]"
    by auto
  have empty: "filter (\<lambda>p. surface_fixation.start_timestamp f \<le> pupil_timestamp p
                   \<and> pupil_timestamp p \<le> float64_add (surface_fixation.start_timestamp f) (float64_div (surface_fixation.duration f) 1000)
                   \<and> c \<le> pupil_position.confidence p) pp = []"
    using assms(3) by (simp add: filter_empty_conv)
  have undefined: "result_row c pp f = (surface_fixation.fixation_id f, None)"
    unfolding result_row_unfold empty by (simp add: mean_def)
  have "(surface_fixation.fixation_id f, Some 0) \<notin> set (filter (\<lambda>r. fst r = surface_fixation.fixation_id f) rs)"
    unfolding row undefined by simp
  then have "(surface_fixation.fixation_id f, Some 0) \<notin> set rs" by simp
  with rs row undefined show ?thesis by simp
qed

theorem no_qualifying_samples_gives_undefined_witness:
  "find (\<lambda>row. surface_fixation.fixation_id row = surface_fixation.fixation_id example_empty_fixation)
       [example_first_fixation, example_empty_fixation] = Some example_empty_fixation
   \<and> on_surf example_empty_fixation
   \<and> (\<exists>rs. aggregateByEvent MIN_CONFIDENCE example_pupil_positions
               [example_first_fixation, example_empty_fixation] = Inr rs
           \<and> filter (\<lambda>r. fst r = surface_fixation.fixation_id example_empty_fixation) rs
               = [(surface_fixation.fixation_id example_empty_fixation, None)]
           \<and> (surface_fixation.fixation_id example_empty_fixation, Some 0) \<notin> set rs)"
proof -
  have h1: "find (\<lambda>row. surface_fixation.fixation_id row = surface_fixation.fixation_id example_empty_fixation)
       [example_first_fixation, example_empty_fixation] = Some example_empty_fixation" by simp
  have h2: "on_surf example_empty_fixation" by simp
  have h3: "\<forall>p \<in> set example_pupil_positions.
         \<not> (surface_fixation.start_timestamp example_empty_fixation \<le> pupil_timestamp p
            \<and> pupil_timestamp p \<le> float64_add (surface_fixation.start_timestamp example_empty_fixation)
                  (float64_div (surface_fixation.duration example_empty_fixation) 1000)
            \<and> MIN_CONFIDENCE \<le> pupil_position.confidence p)"
    by (simp add: float64_eval)
  from no_qualifying_samples_gives_undefined [OF h1 h2 h3] h1 h2 show ?thesis by blast
qed

text \<open>
  C7 (as amended). The threshold is not checked against any range: for every threshold,
  inside \<open>[0, 1]\<close> or not, the aggregation raises no error and returns its rows.
\<close>

theorem threshold_not_range_checked:
  "\<exists>rs. aggregateByEvent min_confidence pp df = Inr rs"
  unfolding aggregateByEvent_rows by blast

text \<open>
  C7 as stated fails: with the threshold \<open>2\<close> the aggregation returns normally; the
  one sample is filtered out and the mean is undefined.
\<close>

theorem threshold_out_of_range_counterexample:
  "aggregateByEvent 2
     [\<lparr>pupil_timestamp = 0.5, diameter_3d = 4, pupil_position.confidence = 1\<rparr>]
     [\<lparr>surface_fixation.fixation_id = 1, start_timestamp = 0, duration = 1000, on_surf = True\<rparr>]
   = Inr [(1, None)]"
  by (simp add: single_event result_row_unfold mean_def float64_eval)

section \<open>Properties of the tagging\<close>

lemma tag_blinks_map:
  "tag_blinks bs g = map (\<lambda>s. s\<lparr>blink_id := blink_label bs (gaze_timestamp s) (blink_id s)\<rparr>) g"
proof (induction bs arbitrary: g)
  case Nil
  show ?case by simp
next
  case (Cons b bs)
  show ?case by (simp add: Cons.IH comp_def if_distrib [of gaze_timestamp] if_distrib [of blink_id] cong: if_cong)
qed

lemma tag_fixations_map:
  "tag_fixations fs g =
     (fixation_error fs,
      map (\<lambda>s. s\<lparr>gaze_sample.fixation_id :=
                    fixation_label fs (gaze_timestamp s) (gaze_sample.fixation_id s)\<rparr>) g)"
proof (induction fs arbitrary: g)
  case Nil
  show ?case by simp
next
  case (Cons f fs)
  show ?case
  proof (cases "fixation.end_timestamp f")
    case None
    then show ?thesis by simp
  next
    case (Some e)
    then show ?thesis by (simp add: Cons.IH comp_def)
  qed
qed

lemma find_snoc:
  "find P (xs @ [x]) = (case find P xs of None \<Rightarrow> (if P x then Some x else None) | Some y \<Rightarrow> Some y)"
  by (induction xs) auto

lemma find_SomeD: "find P xs = Some x \<Longrightarrow> P x \<and> x \<in> set xs"
  by (induction xs) (auto split: if_splits)

lemma blink_label_find:
  "blink_label bs t l =
     (case find (\<lambda>b. blink.start_timestamp b \<le> t \<and> t \<le> blink.end_timestamp b) (rev bs) of
        None \<Rightarrow> l | Some b \<Rightarrow> Some (blink.id' b))"
  by (induction bs arbitrary: l) (auto simp: find_snoc between_def split: option.splits)

lemma fixation_label_find:
  "\<forall>f \<in> set fs. fixation.end_timestamp f \<noteq> None \<Longrightarrow>
   fixation_label fs t l =
     (case find (\<lambda>f. fixation.start_timestamp f \<le> t \<and> t \<le> the (fixation.end_timestamp f)) (rev fs) of
        None \<Rightarrow> l | Some f \<Rightarrow> Some (fixation.id' f))"
  by (induction fs arbitrary: l) (auto simp: find_snoc between_def split: option.splits)

lemma label_defined_iff:
  "(\<exists>y. (case find P (rev xs) of None \<Rightarrow> None | Some x \<Rightarrow> Some (g x)) = Some y) = (\<exists>x \<in> set xs. P x)"
proof (cases "find P (rev xs)")
  case None
  then have "\<not> (\<exists>x \<in> set xs. P x)" by (simp add: find_None_iff)
  then show ?thesis by (simp add: None)
next
  case (Some a)
  from find_SomeD [OF Some] have "\<exists>x \<in> set xs. P x" by auto
  then show ?thesis by (simp add: Some)
qed

lemma fixation_error_None:
  "\<forall>f \<in> set fs. fixation.end_timestamp f \<noteq> None \<Longrightarrow> fixation_error fs = None"
  by (induction fs) auto

lemma blink_label_cases:
  "(\<forall>l. blink_label bs t l = l) \<or> (\<exists>v. \<forall>l. blink_label bs t l = v)"
  by (induction bs) auto

lemma fixation_label_cases:
  "(\<forall>l. fixation_label fs t l = l) \<or> (\<exists>v. \<forall>l. fixation_label fs t l = v)"
  by (induction fs) (auto split: option.splits)

lemma blink_label_idem: "blink_label bs t (blink_label bs t l) = blink_label bs t l"
  using blink_label_cases [of bs t] by metis

lemma fixation_label_idem: "fixation_label fs t (fixation_label fs t l) = fixation_label fs t l"
  using fixation_label_cases [of fs t] by metis

lemma tagSamples_eq:
  "tagSamples nb =
     (fixation_error (fixations_frame nb),
      nb\<lparr>gaze_frame :=
           map (\<lambda>s. s\<lparr>blink_id := blink_label (blinks_frame nb) (gaze_timestamp s) None,
                        gaze_sample.fixation_id :=
                          fixation_label (fixations_frame nb) (gaze_timestamp s) None\<rparr>)
             (gaze_frame nb)\<rparr>)"
  by (simp add: tagSamples_def tag_fixations_cell_def tag_blinks_cell_def init_labels_def
      tag_blinks_map tag_fixations_map comp_def)

lemma tag_blinks_cell_eq:
  "tag_blinks_cell nb =
     nb\<lparr>gaze_frame :=
          map (\<lambda>s. s\<lparr>blink_id := blink_label (blinks_frame nb) (gaze_timestamp s) (blink_id s)\<rparr>)
            (gaze_frame nb)\<rparr>"
  by (simp add: tag_blinks_cell_def tag_blinks_map)

lemma tag_fixations_cell_eq:
  "tag_fixations_cell nb =
     (fixation_error (fixations_frame nb),
      nb\<lparr>gaze_frame :=
          map (\<lambda>s. s\<lparr>gaze_sample.fixation_id :=
                       fixation_label (fixations_frame nb) (gaze_timestamp s) (gaze_sample.fixation_id s)\<rparr>)
            (gaze_frame nb)\<rparr>)"
  by (simp add: tag_fixations_cell_def tag_fixations_map)

lemma find_rev_Some:
  assumes "x \<in> set xs" and "P x"
  shows "\<exists>y. find P (rev xs) = Some y \<and> y \<in> set xs \<and> P y"
proof (cases "find P (rev xs)")
  case None
  with assms show ?thesis by (simp add: find_None_iff)
next
  case (Some y)
  with find_SomeD [OF Some] show ?thesis by simp
qed

lemma fixation_error_add_end:
  "fixation_error
     (map (\<lambda>f. f\<lparr>fixation.end_timestamp :=
                   Some (float64_add (fixation.start_timestamp f) (float64_div (fixation.duration f) 1000))\<rparr>) fs) = None"
  by (induction fs) auto

lemma fixation_label_add_end:
  "fixation_label
     (map (\<lambda>f. f\<lparr>fixation.end_timestamp :=
                   Some (float64_add (fixation.start_timestamp f) (float64_div (fixation.duration f) 1000))\<rparr>) fs) t l =
     (case find (\<lambda>f. fixation.start_timestamp f \<le> t
                    \<and> t \<le> float64_add (fixation.start_timestamp f) (float64_div (fixation.duration f) 1000)) (rev fs) of
        None \<Rightarrow> l | Some f \<Rightarrow> Some (fixation.id' f))"
  by (induction fs arbitrary: l) (auto simp: find_snoc between_def split: option.splits)

lemma add_end_timestamp_frames:
  "gaze_frame (add_end_timestamp nb) = gaze_frame nb
   \<and> blinks_frame (add_end_timestamp nb) = blinks_frame nb
   \<and> map (\<lambda>f. f\<lparr>fixation.end_timestamp := None\<rparr>) (fixations_frame (add_end_timestamp nb))
       = map (\<lambda>f. f\<lparr>fixation.end_timestamp := None\<rparr>) (fixations_frame nb)
   \<and> map fixation.end_timestamp (fixations_frame (add_end_timestamp nb))
       = map (\<lambda>f. Some (float64_add (fixation.start_timestamp f) (float64_div (fixation.duration f) 1000))) (fixations_frame nb)"
  by (simp add: add_end_timestamp_def comp_def)

text \<open>
  C3. Tagging keeps the number of samples. The blink label of every sample is the
  identifier of the last blink of the blink frame whose closed window contains the
  sample's timestamp, and \<open>None\<close> when there is none. When every fixation has its end
  timestamp, tagging raises no error and the same holds of the fixation label. With an
  empty event frame the label is \<open>None\<close>.
\<close>

theorem labels_are_last_containing_event:
  "length (gaze_frame (snd (tagSamples nb))) = length (gaze_frame nb)
   \<and> (i < length (gaze_frame nb) \<longrightarrow>
        blink_id (gaze_frame (snd (tagSamples nb)) ! i) =
          map_option blink.id'
            (find (\<lambda>b. blink.start_timestamp b \<le> gaze_timestamp (gaze_frame nb ! i)
                       \<and> gaze_timestamp (gaze_frame nb ! i) \<le> blink.end_timestamp b)
               (rev (blinks_frame nb))))
   \<and> ((\<forall>f \<in> set (fixations_frame nb). fixation.end_timestamp f \<noteq> None) \<longrightarrow>
        fst (tagSamples nb) = None)
   \<and> (i < length (gaze_frame nb)
        \<and> (\<forall>f \<in> set (fixations_frame nb). fixation.end_timestamp f \<noteq> None) \<longrightarrow>
        gaze_sample.fixation_id (gaze_frame (snd (tagSamples nb)) ! i) =
          map_option fixation.id'
            (find (\<lambda>f. fixation.start_timestamp f \<le> gaze_timestamp (gaze_frame nb ! i)
                       \<and> gaze_timestamp (gaze_frame nb ! i) \<le> the (fixation.end_timestamp f))
               (rev (fixations_frame nb))))
   \<and> (i < length (gaze_frame nb) \<and> blinks_frame nb = [] \<longrightarrow>
        blink_id (gaze_frame (snd (tagSamples nb)) ! i) = None)
   \<and> (i < length (gaze_frame nb) \<and> fixations_frame nb = [] \<longrightarrow>
        gaze_sample.fixation_id (gaze_frame (snd (tagSamples nb)) ! i) = None)"
proof (intro conjI impI)
  show "length (gaze_frame (snd (tagSamples nb))) = length (gaze_frame nb)"
    by (simp add: tagSamples_eq)
next
  assume "i < length (gaze_frame nb)"
  then show "blink_id (gaze_frame (snd (tagSamples nb)) ! i) =
          map_option blink.id'
            (find (\<lambda>b. blink.start_timestamp b \<le> gaze_timestamp (gaze_frame nb ! i)
                       \<and> gaze_timestamp (gaze_frame nb ! i) \<le> blink.end_timestamp b)
               (rev (blinks_frame nb)))"
    by (simp add: tagSamples_eq blink_label_find split: option.splits)
next
  assume "\<forall>f \<in> set (fixations_frame nb). fixation.end_timestamp f \<noteq> None"
  then show "fst (tagSamples nb) = None"
    by (simp add: tagSamples_eq fixation_error_None)
next
  assume "i < length (gaze_frame nb)
        \<and> (\<forall>f \<in> set (fixations_frame nb). fixation.end_timestamp f \<noteq> None)"
  then show "gaze_sample.fixation_id (gaze_frame (snd (tagSamples nb)) ! i) =
          map_option fixation.id'
            (find (\<lambda>f. fixation.start_timestamp f \<le> gaze_timestamp (gaze_frame nb ! i)
                       \<and> gaze_timestamp (gaze_frame nb ! i) \<le> the (fixation.end_timestamp f))
               (rev (fixations_frame nb)))"
    by (simp add: tagSamples_eq fixation_label_find split: option.splits)
next
  assume "i < length (gaze_frame nb) \<and> blinks_frame nb = []"
  then show "blink_id (gaze_frame (snd (tagSamples nb)) ! i) = None"
    by (simp add: tagSamples_eq)
next
  assume "i < length (gaze_frame nb) \<and> fixations_frame nb = []"
  then show "gaze_sample.fixation_id (gaze_frame (snd (tagSamples nb)) ! i) = None"
    by (simp add: tagSamples_eq)
qed

theorem labels_are_last_containing_event_witness:
  "1 < length (gaze_frame example_notebook)
   \<and> fst (tagSamples example_notebook) = None
   \<and> length (gaze_frame (snd (tagSamples example_notebook))) = 3
   \<and> blink_id (gaze_frame (snd (tagSamples example_notebook)) ! 1) = Some 5
   \<and> gaze_sample.fixation_id (gaze_frame (snd (tagSamples example_notebook)) ! 1) = Some 65
   \<and> blink_id (gaze_frame (snd (tagSamples example_notebook)) ! 2) = None
   \<and> gaze_sample.fixation_id (gaze_frame (snd (tagSamples example_notebook)) ! 2) = None
   \<and> blink_id (gaze_frame (snd (tagSamples
         (example_notebook\<lparr>blinks_frame := [], fixations_frame := []\<rparr>))) ! 1) = None
   \<and> gaze_sample.fixation_id (gaze_frame (snd (tagSamples
         (example_notebook\<lparr>blinks_frame := [], fixations_frame := []\<rparr>))) ! 1) = None"
  using labels_are_last_containing_event [of example_notebook 1]
    labels_are_last_containing_event [of example_notebook 2]
    labels_are_last_containing_event
      [of "example_notebook\<lparr>blinks_frame := [], fixations_frame := []\<rparr>" 1]
  by simp

text \<open>
  C8. Tagging (the initialisation of the label columns and the two loops) writes to the
  gaze frame only: the blink frame and the fixation frame are the same afterwards, also
  when the fixation loop has stopped with an error, and the same holds of each of the
  three steps. The \<open>end_timestamp\<close> column of the fixations is added by
  \<^const>\<open>add_end_timestamp\<close>, which the notebook runs before the tagging and which is
  not part of it (lemma \<open>add_end_timestamp_frames\<close> says what that step changes).
\<close>

theorem tagging_leaves_events_unchanged:
  "blinks_frame (snd (tagSamples nb)) = blinks_frame nb
   \<and> fixations_frame (snd (tagSamples nb)) = fixations_frame nb
   \<and> blinks_frame (init_labels nb) = blinks_frame nb
   \<and> fixations_frame (init_labels nb) = fixations_frame nb
   \<and> blinks_frame (tag_blinks_cell nb) = blinks_frame nb
   \<and> fixations_frame (tag_blinks_cell nb) = fixations_frame nb
   \<and> blinks_frame (snd (tag_fixations_cell nb)) = blinks_frame nb
   \<and> fixations_frame (snd (tag_fixations_cell nb)) = fixations_frame nb"
  by (simp add: tagSamples_eq init_labels_def tag_blinks_cell_eq tag_fixations_cell_eq)

text \<open>
  C9. Tagging is idempotent: tagging the tagged notebook again gives the same result.
  So is each loop on its own, without the initialisation in between.
\<close>

theorem tagging_idempotent:
  "tagSamples (snd (tagSamples nb)) = tagSamples nb
   \<and> tag_blinks_cell (tag_blinks_cell nb) = tag_blinks_cell nb
   \<and> tag_fixations_cell (snd (tag_fixations_cell nb)) = tag_fixations_cell nb"
  by (simp add: tagSamples_eq tag_blinks_cell_eq tag_fixations_cell_eq comp_def
      blink_label_idem fixation_label_idem)

section \<open>The match predicate\<close>

text \<open>
  C4. In the aggregation the samples that enter the mean of an event are those with
  \<open>start \<le> timestamp \<le> end\<close> and \<open>confidence \<ge> min_confidence\<close>, all bounds
  included, where \<open>end\<close> is the event's end as the loop computes it (the float64 sum of
  the start and the float64 quotient of the duration and \<open>1000\<close>). In the tagging a sample gets a label if and only if its timestamp
  lies in the closed window of some event; the confidence of the sample plays no role.
\<close>

theorem match_predicate:
  "(find (\<lambda>row. surface_fixation.fixation_id row = surface_fixation.fixation_id e) df = Some e
      \<and> on_surf e \<longrightarrow>
      (\<exists>rs. aggregateByEvent min_confidence pp df = Inr rs
         \<and> filter (\<lambda>r. fst r = surface_fixation.fixation_id e) rs =
             [(surface_fixation.fixation_id e,
               mean (map diameter_3d
                 (filter (\<lambda>p. surface_fixation.start_timestamp e \<le> pupil_timestamp p
                            \<and> pupil_timestamp p
                                \<le> float64_add (surface_fixation.start_timestamp e) (float64_div (surface_fixation.duration e) 1000)
                            \<and> pupil_position.confidence p \<ge> min_confidence) pp)))]))
   \<and> (i < length (gaze_frame nb) \<longrightarrow>
        (blink_id (gaze_frame (snd (tagSamples nb)) ! i) \<noteq> None) =
        (\<exists>b \<in> set (blinks_frame nb).
            blink.start_timestamp b \<le> gaze_timestamp (gaze_frame nb ! i)
            \<and> gaze_timestamp (gaze_frame nb ! i) \<le> blink.end_timestamp b))
   \<and> (i < length (gaze_frame nb)
        \<and> (\<forall>f \<in> set (fixations_frame nb). fixation.end_timestamp f \<noteq> None) \<longrightarrow>
        (gaze_sample.fixation_id (gaze_frame (snd (tagSamples nb)) ! i) \<noteq> None) =
        (\<exists>f \<in> set (fixations_frame nb).
            fixation.start_timestamp f \<le> gaze_timestamp (gaze_frame nb ! i)
            \<and> gaze_timestamp (gaze_frame nb ! i) \<le> the (fixation.end_timestamp f)))"
proof (intro conjI impI)
  assume "find (\<lambda>row. surface_fixation.fixation_id row = surface_fixation.fixation_id e) df = Some e
      \<and> on_surf e"
  then show "\<exists>rs. aggregateByEvent min_confidence pp df = Inr rs
         \<and> filter (\<lambda>r. fst r = surface_fixation.fixation_id e) rs =
             [(surface_fixation.fixation_id e,
               mean (map diameter_3d
                 (filter (\<lambda>p. surface_fixation.start_timestamp e \<le> pupil_timestamp p
                            \<and> pupil_timestamp p
                                \<le> float64_add (surface_fixation.start_timestamp e) (float64_div (surface_fixation.duration e) 1000)
                            \<and> pupil_position.confidence p \<ge> min_confidence) pp)))]"
    using rows_for_key [of "surface_fixation.fixation_id e" df e min_confidence pp]
    by (simp add: result_row_unfold)
next
  assume "i < length (gaze_frame nb)"
  then show "(blink_id (gaze_frame (snd (tagSamples nb)) ! i) \<noteq> None) =
        (\<exists>b \<in> set (blinks_frame nb).
            blink.start_timestamp b \<le> gaze_timestamp (gaze_frame nb ! i)
            \<and> gaze_timestamp (gaze_frame nb ! i) \<le> blink.end_timestamp b)"
    by (simp add: tagSamples_eq blink_label_find label_defined_iff)
next
  assume "i < length (gaze_frame nb)
        \<and> (\<forall>f \<in> set (fixations_frame nb). fixation.end_timestamp f \<noteq> None)"
  then show "(gaze_sample.fixation_id (gaze_frame (snd (tagSamples nb)) ! i) \<noteq> None) =
        (\<exists>f \<in> set (fixations_frame nb).
            fixation.start_timestamp f \<le> gaze_timestamp (gaze_frame nb ! i)
            \<and> gaze_timestamp (gaze_frame nb ! i) \<le> the (fixation.end_timestamp f))"
    by (simp add: tagSamples_eq fixation_label_find label_defined_iff)
qed

theorem match_predicate_witness:
  "find (\<lambda>row. surface_fixation.fixation_id row = surface_fixation.fixation_id example_first_fixation)
       example_fixations_on_surface = Some example_first_fixation
   \<and> on_surf example_first_fixation
   \<and> (\<exists>rs. aggregateByEvent MIN_CONFIDENCE example_pupil_positions example_fixations_on_surface = Inr rs
         \<and> filter (\<lambda>r. fst r = 1) rs = [(1, Some 4)])
   \<and> 1 < length (gaze_frame example_notebook)
   \<and> gaze_sample.confidence (gaze_frame example_notebook ! 1) < MIN_CONFIDENCE
   \<and> blink_id (gaze_frame (snd (tagSamples example_notebook)) ! 1) \<noteq> None
   \<and> gaze_sample.fixation_id (gaze_frame (snd (tagSamples example_notebook)) ! 1) \<noteq> None"
  using match_predicate [of example_first_fixation example_fixations_on_surface MIN_CONFIDENCE
      example_pupil_positions 1 example_notebook]
  by (simp add: mean_def MIN_CONFIDENCE_def float64_eval)

text \<open>
  C6. An event given by its start (seconds) and its duration (milliseconds) is matched
  against the closed window from \<open>start\<close> to \<open>start + duration / 1000\<close>, the sum and
  the quotient being the float64 operations of the code's expression: in the
  aggregation, where the end is computed in the loop, and in the tagging of fixations,
  where \<^const>\<open>add_end_timestamp\<close> computes the end before the loop runs. An event
  with start \<open>10\<close> and duration \<open>500\<close> has the window from \<open>10\<close> to \<open>10.5\<close>; there
  both operations are exact. (They are not always: see \<open>float64_end_above_exact\<close>
  and the boundary examples at the end.)
\<close>

theorem duration_gives_window_end:
  "(find (\<lambda>row. surface_fixation.fixation_id row = surface_fixation.fixation_id e) df = Some e
      \<and> on_surf e \<longrightarrow>
      (\<exists>rs. aggregateByEvent min_confidence pp df = Inr rs
         \<and> filter (\<lambda>r. fst r = surface_fixation.fixation_id e) rs =
             [(surface_fixation.fixation_id e,
               mean (map diameter_3d
                 (filter (\<lambda>p. surface_fixation.start_timestamp e \<le> pupil_timestamp p
                            \<and> pupil_timestamp p
                                \<le> float64_add (surface_fixation.start_timestamp e) (float64_div (surface_fixation.duration e) 1000)
                            \<and> pupil_position.confidence p \<ge> min_confidence) pp)))]))
   \<and> aggregateByEvent min_confidence pp
        [\<lparr>surface_fixation.fixation_id = 3, start_timestamp = 10, duration = 500, on_surf = True\<rparr>]
      = Inr [(3, mean (map diameter_3d
                 (filter (\<lambda>p. 10 \<le> pupil_timestamp p \<and> pupil_timestamp p \<le> 10.5
                            \<and> pupil_position.confidence p \<ge> min_confidence) pp)))]
   \<and> fst (tagSamples (add_end_timestamp nb)) = None
   \<and> (i < length (gaze_frame nb) \<longrightarrow>
        gaze_sample.fixation_id (gaze_frame (snd (tagSamples (add_end_timestamp nb))) ! i) =
          map_option fixation.id'
            (find (\<lambda>f. fixation.start_timestamp f \<le> gaze_timestamp (gaze_frame nb ! i)
                       \<and> gaze_timestamp (gaze_frame nb ! i)
                           \<le> float64_add (fixation.start_timestamp f) (float64_div (fixation.duration f) 1000))
               (rev (fixations_frame nb))))
   \<and> (i < length (gaze_frame nb)
        \<and> fixations_frame nb
            = [\<lparr>fixation.id' = 3, start_timestamp = 10, duration = 500, end_timestamp = any_end\<rparr>]
        \<longrightarrow>
        gaze_sample.fixation_id (gaze_frame (snd (tagSamples (add_end_timestamp nb))) ! i) =
          (if 10 \<le> gaze_timestamp (gaze_frame nb ! i) \<and> gaze_timestamp (gaze_frame nb ! i) \<le> 10.5
           then Some 3 else None))"
proof -
  have agg: "find (\<lambda>row. surface_fixation.fixation_id row = surface_fixation.fixation_id e) df = Some e
      \<and> on_surf e \<longrightarrow>
      (\<exists>rs. aggregateByEvent min_confidence pp df = Inr rs
         \<and> filter (\<lambda>r. fst r = surface_fixation.fixation_id e) rs =
             [(surface_fixation.fixation_id e,
               mean (map diameter_3d
                 (filter (\<lambda>p. surface_fixation.start_timestamp e \<le> pupil_timestamp p
                            \<and> pupil_timestamp p
                                \<le> float64_add (surface_fixation.start_timestamp e) (float64_div (surface_fixation.duration e) 1000)
                            \<and> pupil_position.confidence p \<ge> min_confidence) pp)))])"
    using row_of_valid_event [of e df min_confidence pp] by blast
  have agg3: "aggregateByEvent min_confidence pp
        [\<lparr>surface_fixation.fixation_id = 3, start_timestamp = 10, duration = 500, on_surf = True\<rparr>]
      = Inr [(3, mean (map diameter_3d
                 (filter (\<lambda>p. 10 \<le> pupil_timestamp p \<and> pupil_timestamp p \<le> 10.5
                            \<and> pupil_position.confidence p \<ge> min_confidence) pp)))]"
    by (simp add: single_event result_row_unfold float64_end_10_500)
  have err: "fst (tagSamples (add_end_timestamp nb)) = None"
    by (simp add: tagSamples_eq add_end_timestamp_def fixation_error_add_end)
  have tag: "i < length (gaze_frame nb) \<longrightarrow>
        gaze_sample.fixation_id (gaze_frame (snd (tagSamples (add_end_timestamp nb))) ! i) =
          map_option fixation.id'
            (find (\<lambda>f. fixation.start_timestamp f \<le> gaze_timestamp (gaze_frame nb ! i)
                       \<and> gaze_timestamp (gaze_frame nb ! i)
                           \<le> float64_add (fixation.start_timestamp f) (float64_div (fixation.duration f) 1000))
               (rev (fixations_frame nb)))"
    by (simp add: tagSamples_eq add_end_timestamp_def fixation_label_add_end split: option.splits)
  have tag3: "i < length (gaze_frame nb)
        \<and> fixations_frame nb
            = [\<lparr>fixation.id' = 3, start_timestamp = 10, duration = 500, end_timestamp = any_end\<rparr>]
        \<longrightarrow>
        gaze_sample.fixation_id (gaze_frame (snd (tagSamples (add_end_timestamp nb))) ! i) =
          (if 10 \<le> gaze_timestamp (gaze_frame nb ! i) \<and> gaze_timestamp (gaze_frame nb ! i) \<le> 10.5
           then Some 3 else None)"
    using tag by (auto simp: float64_end_10_500)
  from agg agg3 err tag tag3 show ?thesis by (intro conjI)
qed

theorem duration_gives_window_end_witness:
  "find (\<lambda>row. surface_fixation.fixation_id row = surface_fixation.fixation_id example_empty_fixation)
       [example_first_fixation, example_empty_fixation] = Some example_empty_fixation
   \<and> on_surf example_empty_fixation
   \<and> (\<exists>rs. aggregateByEvent MIN_CONFIDENCE example_window_pupil_positions
               [example_first_fixation, example_empty_fixation] = Inr rs
         \<and> filter (\<lambda>r. fst r = 3) rs = [(3, Some 5)])
   \<and> 1 < length (gaze_frame example_duration_notebook)
   \<and> fst (tagSamples (add_end_timestamp example_duration_notebook)) = None
   \<and> gaze_sample.fixation_id
        (gaze_frame (snd (tagSamples (add_end_timestamp example_duration_notebook))) ! 0) = Some 3
   \<and> gaze_sample.fixation_id
        (gaze_frame (snd (tagSamples (add_end_timestamp example_duration_notebook))) ! 1) = None"
  using duration_gives_window_end [of example_empty_fixation
      "[example_first_fixation, example_empty_fixation]" MIN_CONFIDENCE
      example_window_pupil_positions example_duration_notebook 0 None]
    duration_gives_window_end [of example_empty_fixation
      "[example_first_fixation, example_empty_fixation]" MIN_CONFIDENCE
      example_window_pupil_positions example_duration_notebook 1 None]
  by (simp add: mean_def MIN_CONFIDENCE_def float64_eval)

section \<open>The two label columns\<close>

text \<open>
  C10. The blink loop changes nothing but the \<open>blink_id\<close> column of the gaze frame and
  the fixation loop nothing but the \<open>fixation_id\<close> column: with that column erased, the
  frame after the loop is the frame before it. A sample whose timestamp lies in the
  window of a blink and in the window of a fixation carries, after the tagging, the
  identifier of a blink and the identifier of a fixation whose windows contain it.
\<close>

theorem label_columns_independent:
  "map (\<lambda>g. g\<lparr>blink_id := None\<rparr>) (gaze_frame (tag_blinks_cell nb))
     = map (\<lambda>g. g\<lparr>blink_id := None\<rparr>) (gaze_frame nb)
   \<and> map (\<lambda>g. g\<lparr>gaze_sample.fixation_id := None\<rparr>) (gaze_frame (snd (tag_fixations_cell nb)))
     = map (\<lambda>g. g\<lparr>gaze_sample.fixation_id := None\<rparr>) (gaze_frame nb)
   \<and> (i < length (gaze_frame nb)
        \<and> (\<forall>f \<in> set (fixations_frame nb). fixation.end_timestamp f \<noteq> None)
        \<and> b \<in> set (blinks_frame nb)
        \<and> blink.start_timestamp b \<le> gaze_timestamp (gaze_frame nb ! i)
        \<and> gaze_timestamp (gaze_frame nb ! i) \<le> blink.end_timestamp b
        \<and> f \<in> set (fixations_frame nb)
        \<and> fixation.start_timestamp f \<le> gaze_timestamp (gaze_frame nb ! i)
        \<and> gaze_timestamp (gaze_frame nb ! i) \<le> the (fixation.end_timestamp f)
      \<longrightarrow>
        (\<exists>b' f'. b' \<in> set (blinks_frame nb) \<and> f' \<in> set (fixations_frame nb)
           \<and> blink.start_timestamp b' \<le> gaze_timestamp (gaze_frame nb ! i)
           \<and> gaze_timestamp (gaze_frame nb ! i) \<le> blink.end_timestamp b'
           \<and> fixation.start_timestamp f' \<le> gaze_timestamp (gaze_frame nb ! i)
           \<and> gaze_timestamp (gaze_frame nb ! i) \<le> the (fixation.end_timestamp f')
           \<and> blink_id (gaze_frame (snd (tagSamples nb)) ! i) = Some (blink.id' b')
           \<and> gaze_sample.fixation_id (gaze_frame (snd (tagSamples nb)) ! i) = Some (fixation.id' f')))"
proof (intro conjI impI)
  show "map (\<lambda>g. g\<lparr>blink_id := None\<rparr>) (gaze_frame (tag_blinks_cell nb))
     = map (\<lambda>g. g\<lparr>blink_id := None\<rparr>) (gaze_frame nb)"
    by (simp add: tag_blinks_cell_eq comp_def)
next
  show "map (\<lambda>g. g\<lparr>gaze_sample.fixation_id := None\<rparr>) (gaze_frame (snd (tag_fixations_cell nb)))
     = map (\<lambda>g. g\<lparr>gaze_sample.fixation_id := None\<rparr>) (gaze_frame nb)"
    by (simp add: tag_fixations_cell_eq comp_def)
next
  let ?t = "gaze_timestamp (gaze_frame nb ! i)"
  let ?B = "\<lambda>b. blink.start_timestamp b \<le> ?t \<and> ?t \<le> blink.end_timestamp b"
  let ?F = "\<lambda>f. fixation.start_timestamp f \<le> ?t \<and> ?t \<le> the (fixation.end_timestamp f)"
  assume h: "i < length (gaze_frame nb)
        \<and> (\<forall>f \<in> set (fixations_frame nb). fixation.end_timestamp f \<noteq> None)
        \<and> b \<in> set (blinks_frame nb)
        \<and> blink.start_timestamp b \<le> gaze_timestamp (gaze_frame nb ! i)
        \<and> gaze_timestamp (gaze_frame nb ! i) \<le> blink.end_timestamp b
        \<and> f \<in> set (fixations_frame nb)
        \<and> fixation.start_timestamp f \<le> gaze_timestamp (gaze_frame nb ! i)
        \<and> gaze_timestamp (gaze_frame nb ! i) \<le> the (fixation.end_timestamp f)"
  then have i: "i < length (gaze_frame nb)"
    and ends: "\<forall>f \<in> set (fixations_frame nb). fixation.end_timestamp f \<noteq> None"
    and b: "b \<in> set (blinks_frame nb)" "?B b"
    and f: "f \<in> set (fixations_frame nb)" "?F f"
    by simp_all
  from find_rev_Some [of b "blinks_frame nb" ?B, OF b]
  obtain b' where b': "find ?B (rev (blinks_frame nb)) = Some b'" "b' \<in> set (blinks_frame nb)" "?B b'"
    by blast
  from find_rev_Some [of f "fixations_frame nb" ?F, OF f]
  obtain f' where f': "find ?F (rev (fixations_frame nb)) = Some f'" "f' \<in> set (fixations_frame nb)" "?F f'"
    by blast
  have "blink_id (gaze_frame (snd (tagSamples nb)) ! i) = Some (blink.id' b')"
    using i by (simp add: tagSamples_eq blink_label_find b'(1))
  moreover have "gaze_sample.fixation_id (gaze_frame (snd (tagSamples nb)) ! i) = Some (fixation.id' f')"
    using i by (simp add: tagSamples_eq fixation_label_find [OF ends] f'(1))
  ultimately show "\<exists>b' f'. b' \<in> set (blinks_frame nb) \<and> f' \<in> set (fixations_frame nb)
           \<and> blink.start_timestamp b' \<le> gaze_timestamp (gaze_frame nb ! i)
           \<and> gaze_timestamp (gaze_frame nb ! i) \<le> blink.end_timestamp b'
           \<and> fixation.start_timestamp f' \<le> gaze_timestamp (gaze_frame nb ! i)
           \<and> gaze_timestamp (gaze_frame nb ! i) \<le> the (fixation.end_timestamp f')
           \<and> blink_id (gaze_frame (snd (tagSamples nb)) ! i) = Some (blink.id' b')
           \<and> gaze_sample.fixation_id (gaze_frame (snd (tagSamples nb)) ! i) = Some (fixation.id' f')"
    using b'(2,3) f'(2,3) by blast
qed

theorem label_columns_independent_witness:
  "1 < length (gaze_frame example_notebook)
   \<and> blink_id (gaze_frame (snd (tagSamples example_notebook)) ! 1) = Some 5
   \<and> gaze_sample.fixation_id (gaze_frame (snd (tagSamples example_notebook)) ! 1) = Some 65"
  using label_columns_independent [of example_notebook 1
      "\<lparr>blink.id' = 5, start_timestamp = 0.5, end_timestamp = 2\<rparr>"
      "\<lparr>fixation.id' = 65, start_timestamp = 0, duration = 2000, end_timestamp = Some 2\<rparr>"]
  by simp

section \<open>Boundary examples with inexact ends\<close>

text \<open>
  A fixation that starts at the float64 value nearest to \<open>0.1\<close> and lasts \<open>200\<close> ms ends,
  as the loop computes it, at the float64 value printed as \<open>0.30000000000000004\<close>; a pupil
  sample with that timestamp is inside the window and enters the mean.
\<close>

lemma aggregateByEvent_inexact_end_example:
  "aggregateByEvent MIN_CONFIDENCE
     [\<lparr>pupil_timestamp = 1351079888211149 / 2 ^ 52, diameter_3d = 4, pupil_position.confidence = 1\<rparr>]
     [\<lparr>surface_fixation.fixation_id = 1, start_timestamp = 3602879701896397 / 2 ^ 55,
       duration = 200, on_surf = True\<rparr>]
   = Inr [(1, Some 4)]"
  by (simp add: single_event result_row_unfold mean_def MIN_CONFIDENCE_def float64_eval)

text \<open>
  A fixation that starts at the float64 value nearest to \<open>0.7\<close> and lasts \<open>100\<close> ms ends
  at the value printed as \<open>0.7999999999999999\<close>; a gaze sample at the float64 value
  nearest to \<open>0.8\<close> is outside the window and keeps the label \<open>None\<close>.
\<close>

lemma tagSamples_inexact_end_example:
  "map gaze_sample.fixation_id
     (gaze_frame (snd (tagSamples (add_end_timestamp
        \<lparr>gaze_frame =
           [\<lparr>gaze_timestamp = 3602879701896397 / 2 ^ 52, gaze_sample.confidence = 1,
             norm_pos_x = 0.5, norm_pos_y = 0.5, blink_id = None,
             gaze_sample.fixation_id = None\<rparr>,
            \<lparr>gaze_timestamp = 7205759403792793 / 2 ^ 53, gaze_sample.confidence = 1,
             norm_pos_x = 0.5, norm_pos_y = 0.5, blink_id = None,
             gaze_sample.fixation_id = None\<rparr>],
         blinks_frame = [],
         fixations_frame =
           [\<lparr>fixation.id' = 65, start_timestamp = 3152519739159347 / 2 ^ 52, duration = 100,
             end_timestamp = None\<rparr>]\<rparr>))))
   = [None, Some 65]"
  by (simp add: tagSamples_eq add_end_timestamp_def between_def float64_eval)

end
